theory Spec2Isabelle
  imports Main
begin

section \<open>Data model of AdView.tsx\<close>

text \<open>
  The enum \<open>AdFormat\<close> (lines 33 to 43) has the two members BANNER and MREC.
\<close>

datatype AdFormat = BANNER | MREC

text \<open>
  A \<open>DimensionValue\<close> of a style is the string 'auto', a number, or a percentage string.
  JavaScript numbers are modelled as integers: the component only copies and compares
  them, it never computes with them. The value \<open>undefined\<close> is \<open>None\<close> of an option.
\<close>

datatype DimensionValue = Auto | Num int | Percent int

text \<open>
  \<open>SizeRecord\<close> is \<open>Partial<Record<'width' | 'height', DimensionValue>>\<close>. Every object of
  this type that the component builds is either the empty object (no key at all) or an
  object literal with both keys, whose values may be undefined. \<open>Object.keys\<close> tells the
  two apart, so the model keeps them apart as well.
\<close>

datatype SizeRecord = NoKeys | Size "DimensionValue option" "DimensionValue option"

fun widthOf :: "SizeRecord \<Rightarrow> DimensionValue option" where
  "widthOf NoKeys = None"
| "widthOf (Size w h) = w"

fun heightOf :: "SizeRecord \<Rightarrow> DimensionValue option" where
  "heightOf NoKeys = None"
| "heightOf (Size w h) = h"

fun keysLength :: "SizeRecord \<Rightarrow> nat" where
  "keysLength NoKeys = 0"
| "keysLength (Size w h) = 2"

text \<open>The table \<open>ADVIEW_SIZE\<close> (lines 77 to 81).\<close>

definition ADVIEW_SIZE_banner :: SizeRecord where
  "ADVIEW_SIZE_banner = Size (Some (Num 320)) (Some (Num 50))"

definition ADVIEW_SIZE_leader :: SizeRecord where
  "ADVIEW_SIZE_leader = Size (Some (Num 728)) (Some (Num 90))"

definition ADVIEW_SIZE_mrec :: SizeRecord where
  "ADVIEW_SIZE_mrec = Size (Some (Num 300)) (Some (Num 250))"

text \<open>
  The flattened style, reduced to the two properties the component reads. \<open>None\<close> stands
  for a property that is missing, undefined or null (all three take the right-hand side
  of \<open>??\<close>).
\<close>

record ViewStyle =
  styleWidth :: "DimensionValue option"
  styleHeight :: "DimensionValue option"

text \<open>\<open>getOutlineViewSize\<close> (lines 84 to 87): 'auto' for an unspecified width or height.\<close>

definition getOutlineViewSize :: "ViewStyle \<Rightarrow> DimensionValue \<times> DimensionValue" where
  "getOutlineViewSize style =
     ((case styleWidth style of None \<Rightarrow> Auto | Some w \<Rightarrow> w),
      (case styleHeight style of None \<Rightarrow> Auto | Some h \<Rightarrow> h))"

text \<open>
  The native module \<open>AppLovinMAX\<close> is not part of the component. Its answers to the three
  queries the component issues are parameters of the model.
\<close>

record NativeModule =
  nativeIsTablet :: bool
  nativeIsInitialized :: bool
  getAdaptiveBannerHeightForWidth :: "int \<Rightarrow> int"

text \<open>
  \<open>sizeBannerDimensions\<close> (lines 89 to 108): the value its promise resolves with. When
  the promise resolves is a matter of the event model below.
\<close>

definition sizeBannerDimensions ::
  "NativeModule \<Rightarrow> SizeRecord \<Rightarrow> bool \<Rightarrow> int \<Rightarrow> SizeRecord \<Rightarrow> SizeRecord" where
  "sizeBannerDimensions native sizeProps adaptiveBannerEnabled screenWidth bannerFormatSize =
     (let width = (if widthOf sizeProps = Some Auto then Some (Num screenWidth)
                   else widthOf sizeProps);
          height = (if heightOf sizeProps = Some Auto
                    then (if adaptiveBannerEnabled
                          then Some (Num (getAdaptiveBannerHeightForWidth native screenWidth))
                          else heightOf bannerFormatSize)
                    else heightOf sizeProps)
      in Size width height)"

text \<open>The object literal of the MREC branch (lines 221 to 224).\<close>

definition mrecDimensions :: "DimensionValue \<Rightarrow> DimensionValue \<Rightarrow> SizeRecord \<Rightarrow> SizeRecord" where
  "mrecDimensions width height formatSize =
     Size (if width = Auto then widthOf formatSize else Some width)
          (if height = Auto then heightOf formatSize else Some height)"

section \<open>The component as a state machine\<close>

text \<open>The props the sizing logic reads, with the screen width of \<open>useWindowDimensions\<close>.\<close>

record Props =
  adFormat :: AdFormat
  adaptiveBannerEnabled :: bool
  style :: ViewStyle
  screenWidth :: int

text \<open>
  A promise the component waits for, with the arguments its continuation has captured:
  \<open>AppLovinMAX.isTablet()\<close>, \<open>AppLovinMAX.isInitialized()\<close>, and a call of
  \<open>sizeBannerDimensions\<close> with its four arguments.
\<close>

datatype Request =
    IsTabletQ
  | IsInitializedQ
  | BannerSizeQ SizeRecord bool int SizeRecord

text \<open>The rendered native element that the ref callback receives.\<close>

datatype AdViewType = AdViewElement

text \<open>
  The hooks of one component instance (lines 157 to 162), followed by what the
  component does to its surroundings: the promises still outstanding, the console
  warnings, the view-manager commands dispatched, the format the mount effect last ran
  for (its dependency list), and whether the component is mounted. \<open>forceUpdates\<close> counts
  the calls of \<open>forceUpdate\<close>, each of which asks the host for another render pass.
\<close>

record AdViewState =
  adFormatSize :: SizeRecord
  forceUpdates :: nat
  adViewRef :: "AdViewType option"
  isInitialized :: bool
  sizeProps :: SizeRecord
  dimensions :: SizeRecord
  pending :: "Request list"
  warnings :: "string list"
  commands :: "(AdViewType \<times> string) list"
  effectFormat :: "AdFormat option"
  mounted :: bool

definition initialState :: AdViewState where
  "initialState =
     \<lparr> adFormatSize = NoKeys, forceUpdates = 0, adViewRef = None, isInitialized = False,
       sizeProps = NoKeys, dimensions = NoKeys, pending = [], warnings = [],
       commands = [], effectFormat = None, mounted = True \<rparr>"

definition forceUpdate :: "AdViewState \<Rightarrow> AdViewState" where
  "forceUpdate s = s\<lparr>forceUpdates := Suc (forceUpdates s)\<rparr>"

text \<open>\<open>loadAd\<close> (lines 164 to 173).\<close>

definition loadAd :: "AdViewState \<Rightarrow> AdViewState" where
  "loadAd s =
     (case adViewRef s of
        Some element \<Rightarrow> s\<lparr>commands := commands s @ [(element, ''loadAd'')]\<rparr>
      | None \<Rightarrow> s)"

text \<open>\<open>saveElement\<close> (lines 177 to 181): a null element leaves the ref as it is.\<close>

definition saveElement :: "AdViewType option \<Rightarrow> AdViewState \<Rightarrow> AdViewState" where
  "saveElement element s =
     (case element of Some e \<Rightarrow> s\<lparr>adViewRef := Some e\<rparr> | None \<Rightarrow> s)"

text \<open>
  The mount effect (lines 183 to 202), up to the point where it has issued its queries.
\<close>

definition mountEffect :: "AdFormat \<Rightarrow> AdViewState \<Rightarrow> AdViewState" where
  "mountEffect fmt s =
     (let s1 = (if fmt = BANNER then s\<lparr>pending := pending s @ [IsTabletQ]\<rparr>
                else s\<lparr>adFormatSize := ADVIEW_SIZE_mrec\<rparr>)
      in s1\<lparr>pending := pending s1 @ [IsInitializedQ], effectFormat := Some fmt\<rparr>)"

text \<open>The continuation of \<open>isTablet()\<close> (lines 185 to 191).\<close>

definition thenIsTablet :: "bool \<Rightarrow> AdViewState \<Rightarrow> AdViewState" where
  "thenIsTablet result s =
     (if result then s\<lparr>adFormatSize := ADVIEW_SIZE_leader\<rparr>
      else s\<lparr>adFormatSize := ADVIEW_SIZE_banner\<rparr>)"

text \<open>The continuation of \<open>isInitialized()\<close> (lines 196 to 201).\<close>

definition initWarning :: string where
  "initWarning =
     ''AdView is mounted before the initialization of the AppLovin MAX React Native module''"

definition thenIsInitialized :: "bool \<Rightarrow> AdViewState \<Rightarrow> AdViewState" where
  "thenIsInitialized result s =
     (let s1 = s\<lparr>isInitialized := result\<rparr>
      in if \<not> result then s1\<lparr>warnings := warnings s1 @ [initWarning]\<rparr> else s1)"

text \<open>The continuation of \<open>sizeBannerDimensions\<close> (lines 214 to 219).\<close>

definition thenBannerSize :: "SizeRecord \<Rightarrow> AdViewState \<Rightarrow> AdViewState" where
  "thenBannerSize adaptedSize s =
     (if widthOf (dimensions s) \<noteq> widthOf adaptedSize
         \<or> heightOf (dimensions s) \<noteq> heightOf adaptedSize
      then forceUpdate (s\<lparr>dimensions := adaptedSize\<rparr>)
      else s)"

text \<open>The sizing effect (lines 204 to 227), which runs after every render pass.\<close>

definition sizingEffect :: "Props \<Rightarrow> AdViewState \<Rightarrow> AdViewState" where
  "sizingEffect props s =
     (if \<not> isInitialized s then s
      else
        (let (width, height) = getOutlineViewSize (style props)
         in if widthOf (sizeProps s) = Some width \<and> heightOf (sizeProps s) = Some height
            then s
            else
              (let s1 = s\<lparr>sizeProps := Size (Some width) (Some height)\<rparr>
               in if adFormat props = BANNER
                  then s1\<lparr>pending := pending s1 @
                             [BannerSizeQ (sizeProps s1) (adaptiveBannerEnabled props)
                                (screenWidth props) (adFormatSize s1)]\<rparr>
                  else forceUpdate
                         (s1\<lparr>dimensions := mrecDimensions width height (adFormatSize s1)\<rparr>))))"

text \<open>
  What the component returns from a render pass (lines 257 to 292): null, or the native
  view with the width and height that \<open>Object.assign({}, style, dimensions.current)\<close>
  gives it. \<open>Object.assign\<close> copies every own key of \<open>dimensions.current\<close>, also one whose
  value is undefined.
\<close>

datatype RenderOutput = Null | AdViewComponent "DimensionValue option" "DimensionValue option"

definition render :: "Props \<Rightarrow> AdViewState \<Rightarrow> RenderOutput" where
  "render props s =
     (if \<not> isInitialized s then Null
      else if \<not> (keysLength (dimensions s) > 0) then Null
      else (case dimensions s of
              NoKeys \<Rightarrow> AdViewComponent (styleWidth (style props)) (styleHeight (style props))
            | Size w h \<Rightarrow> AdViewComponent w h))"

text \<open>
  One render pass of a mounted component: the body runs, the host commits the output
  (handing a rendered native view, or null when there is none, to the ref callback),
  then the effects run in the order they are declared: the mount effect when \<open>adFormat\<close>
  differs from the value it last ran for, and the sizing effect always. An unmounted
  component is not rendered any more.
\<close>

definition renderPass :: "Props \<Rightarrow> AdViewState \<Rightarrow> AdViewState" where
  "renderPass props s =
     (if \<not> mounted s then s
      else
        (let s1 = (case render props s of
                     Null \<Rightarrow> saveElement None s
                   | AdViewComponent w h \<Rightarrow> saveElement (Some AdViewElement) s);
             s2 = (if effectFormat s1 \<noteq> Some (adFormat props)
                   then mountEffect (adFormat props) s1 else s1)
         in sizingEffect props s2))"

text \<open>
  The settling of the \<open>i\<close>-th outstanding promise: it leaves the queue and its
  continuation runs with the native module's answer. Promises may settle in any order.
  The continuations do not look at whether the component is still mounted, nor at
  whether a newer request exists.
\<close>

definition settle :: "NativeModule \<Rightarrow> nat \<Rightarrow> AdViewState \<Rightarrow> AdViewState" where
  "settle native i s =
     (if i < length (pending s)
      then
        (let s1 = s\<lparr>pending := take i (pending s) @ drop (Suc i) (pending s)\<rparr>
         in case pending s ! i of
              IsTabletQ \<Rightarrow> thenIsTablet (nativeIsTablet native) s1
            | IsInitializedQ \<Rightarrow> thenIsInitialized (nativeIsInitialized native) s1
            | BannerSizeQ sp adaptive sw formatSize \<Rightarrow>
                thenBannerSize (sizeBannerDimensions native sp adaptive sw formatSize) s1)
      else s)"

datatype Event = Render Props | Settle nat | LoadAd | Unmount

fun step :: "NativeModule \<Rightarrow> AdViewState \<Rightarrow> Event \<Rightarrow> AdViewState" where
  "step native s (Render props) = renderPass props s"
| "step native s (Settle i) = settle native i s"
| "step native s LoadAd = loadAd s"
| "step native s Unmount = s\<lparr>mounted := False\<rparr>"

fun runFrom :: "NativeModule \<Rightarrow> AdViewState \<Rightarrow> Event list \<Rightarrow> AdViewState" where
  "runFrom native s [] = s"
| "runFrom native s (e # es) = runFrom native (step native s e) es"

definition run :: "NativeModule \<Rightarrow> Event list \<Rightarrow> AdViewState" where
  "run native events = runFrom native initialState events"

text \<open>What the render passes of a mounted component return along a run, in order.\<close>

fun outputsFrom :: "NativeModule \<Rightarrow> AdViewState \<Rightarrow> Event list \<Rightarrow> RenderOutput list" where
  "outputsFrom native s [] = []"
| "outputsFrom native s (Render props # es) =
     (if mounted s then [render props s] else [])
       @ outputsFrom native (step native s (Render props)) es"
| "outputsFrom native s (e # es) = outputsFrom native (step native s e) es"

definition outputs :: "NativeModule \<Rightarrow> Event list \<Rightarrow> RenderOutput list" where
  "outputs native events = outputsFrom native initialState events"

section \<open>The preload and destroy functions\<close>

text \<open>
  Modelled from the spec: the type \<open>NativeUIComponentAdViewOptions\<close> is declared in
  \<open>types/AdViewProps\<close>, which is not among the sources. The spec lists placement and
  customData as optional strings and the two parameter sets as optional string-keyed
  mappings; the function reads exactly these four properties.
\<close>

record NativeUIComponentAdViewOptions =
  placement :: "string option"
  customData :: "string option"
  extraParameters :: "(string \<times> string) list option"
  localExtraParameters :: "(string \<times> string) list option"

text \<open>A call that reaches the native module, with its positional arguments.\<close>

datatype NativeCall =
    PreloadCall string AdFormat "string option" "string option"
      "(string \<times> string) list option" "(string \<times> string) list option"
  | DestroyCall string

text \<open>
  A settled promise is a rejection with its reason (\<open>Inl\<close>) or a fulfilment. The native
  module's behaviour is a parameter: the outcome it gives to each call. The list of
  calls issued so far is threaded through, so that the number of calls is visible.
\<close>

type_synonym Settled = "string + unit"

definition preloadNativeUIComponentAdView ::
  "(NativeCall \<Rightarrow> Settled) \<Rightarrow> string \<Rightarrow> AdFormat \<Rightarrow> NativeUIComponentAdViewOptions option
     \<Rightarrow> NativeCall list \<Rightarrow> Settled \<times> NativeCall list" where
  "preloadNativeUIComponentAdView native adUnitId fmt options issued =
     (let call = PreloadCall adUnitId fmt
                   (Option.bind options placement) (Option.bind options customData)
                   (Option.bind options extraParameters)
                   (Option.bind options localExtraParameters)
      in (native call, issued @ [call]))"

definition destroyNativeUIComponentAdView ::
  "(NativeCall \<Rightarrow> Settled) \<Rightarrow> string \<Rightarrow> NativeCall list \<Rightarrow> Settled \<times> NativeCall list" where
  "destroyNativeUIComponentAdView native adUnitId issued =
     (let call = DestroyCall adUnitId in (native call, issued @ [call]))"

section \<open>Concrete inputs\<close>

text \<open>A phone and a tablet with an initialized module, and a module not yet initialized.\<close>

definition adaptiveHeight :: "int \<Rightarrow> int" where
  "adaptiveHeight w = (if w < 600 then 50 else 90)"

definition phoneNative :: NativeModule where
  "phoneNative = \<lparr> nativeIsTablet = False, nativeIsInitialized = True,
                    getAdaptiveBannerHeightForWidth = adaptiveHeight \<rparr>"

definition tabletNative :: NativeModule where
  "tabletNative = \<lparr> nativeIsTablet = True, nativeIsInitialized = True,
                     getAdaptiveBannerHeightForWidth = adaptiveHeight \<rparr>"

definition uninitializedNative :: NativeModule where
  "uninitializedNative = \<lparr> nativeIsTablet = False, nativeIsInitialized = False,
                            getAdaptiveBannerHeightForWidth = adaptiveHeight \<rparr>"

definition styleOf :: "DimensionValue option \<Rightarrow> DimensionValue option \<Rightarrow> ViewStyle" where
  "styleOf w h = \<lparr> styleWidth = w, styleHeight = h \<rparr>"

definition propsOf :: "AdFormat \<Rightarrow> bool \<Rightarrow> ViewStyle \<Rightarrow> int \<Rightarrow> Props" where
  "propsOf fmt adaptive st sw =
     \<lparr> adFormat = fmt, adaptiveBannerEnabled = adaptive, style = st, screenWidth = sw \<rparr>"

text \<open>A banner without adaptive sizing and with an empty style, on a screen 390 wide.\<close>

definition plainBanner :: Props where
  "plainBanner = propsOf BANNER False (styleOf None None) 390"

text \<open>An adaptive banner of the given declared width, height left out, same screen.\<close>

definition adaptiveBanner :: "int \<Rightarrow> Props" where
  "adaptiveBanner w = propsOf BANNER True (styleOf (Some (Num w)) None) 390"

text \<open>An MREC with the given style.\<close>

definition mrecWith :: "DimensionValue option \<Rightarrow> DimensionValue option \<Rightarrow> Props" where
  "mrecWith w h = propsOf MREC True (styleOf w h) 390"

text \<open>A native module for the two passthrough functions that rejects every call.\<close>

definition rejectingNative :: "NativeCall \<Rightarrow> Settled" where
  "rejectingNative call = Inl ''not initialized''"

section \<open>Predicates on runs and states\<close>

text \<open>A run in which every render pass is given the same ad format.\<close>

fun rendersFormat :: "AdFormat \<Rightarrow> Event \<Rightarrow> bool" where
  "rendersFormat fmt (Render props) = (adFormat props = fmt)"
| "rendersFormat fmt e = True"

text \<open>
  The states of a component that is only ever given the format MREC: no tablet query and
  no banner sizing is outstanding, the format size is the MREC entry of the table once
  the mount effect has run, and the stored dimensions are the resolution of the stored
  requested size.
\<close>

definition mrecInv :: "AdViewState \<Rightarrow> bool" where
  "mrecInv s \<longleftrightarrow>
     (\<forall>r \<in> set (pending s). r = IsInitializedQ)
     \<and> (effectFormat s = None
        \<or> (effectFormat s = Some MREC \<and> adFormatSize s = ADVIEW_SIZE_mrec))
     \<and> ((sizeProps s = NoKeys \<and> dimensions s = NoKeys)
        \<or> (\<exists>w h. sizeProps s = Size (Some w) (Some h)
                 \<and> dimensions s = mrecDimensions w h ADVIEW_SIZE_mrec))"

text \<open>The states in which no native element has been saved and no command was sent.\<close>

definition quiet :: "AdViewState \<Rightarrow> bool" where
  "quiet s \<longleftrightarrow> adViewRef s = None \<and> commands s = []"

text \<open>
  A run in which every render pass is given the format MREC or the adaptive flag.
\<close>

fun adaptiveOrMrec :: "Event \<Rightarrow> bool" where
  "adaptiveOrMrec (Render props) = (adFormat props = MREC \<or> adaptiveBannerEnabled props)"
| "adaptiveOrMrec e = True"

text \<open>
  A banner sizing query whose requested size has both values and whose adaptive flag is
  set; the other queries carry no size.
\<close>

fun definedRequest :: "Request \<Rightarrow> bool" where
  "definedRequest (BannerSizeQ sp adaptive sw formatSize) =
     (widthOf sp \<noteq> None \<and> heightOf sp \<noteq> None \<and> adaptive)"
| "definedRequest r = True"

text \<open>
  The states in which every size that is stored, or can still be stored by an
  outstanding query, has a defined width and height: the outstanding sizing queries are
  as above, the format default is empty or complete and it is complete once the mount
  effect has run for MREC, and the stored dimensions are empty or complete.
\<close>

definition sizedInv :: "AdViewState \<Rightarrow> bool" where
  "sizedInv s \<longleftrightarrow>
     list_all definedRequest (pending s)
     \<and> (adFormatSize s = NoKeys
        \<or> (widthOf (adFormatSize s) \<noteq> None \<and> heightOf (adFormatSize s) \<noteq> None))
     \<and> (effectFormat s = Some MREC \<longrightarrow> adFormatSize s \<noteq> NoKeys)
     \<and> (dimensions s = NoKeys
        \<or> (widthOf (dimensions s) \<noteq> None \<and> heightOf (dimensions s) \<noteq> None))"

text \<open>The same for the width alone, which needs nothing of the adaptive flag.\<close>

fun widthRequest :: "Request \<Rightarrow> bool" where
  "widthRequest (BannerSizeQ sp adaptive sw formatSize) = (widthOf sp \<noteq> None)"
| "widthRequest r = True"

definition widthInv :: "AdViewState \<Rightarrow> bool" where
  "widthInv s \<longleftrightarrow>
     list_all widthRequest (pending s)
     \<and> (adFormatSize s = NoKeys \<or> widthOf (adFormatSize s) \<noteq> None)
     \<and> (effectFormat s = Some MREC \<longrightarrow> adFormatSize s \<noteq> NoKeys)
     \<and> (dimensions s = NoKeys \<or> widthOf (dimensions s) \<noteq> None)"

section \<open>Unfolding the model\<close>

lemmas model_defs =
  run_def outputs_def initialState_def renderPass_def render_def saveElement_def
  mountEffect_def sizingEffect_def settle_def thenIsInitialized_def thenIsTablet_def
  thenBannerSize_def sizeBannerDimensions_def mrecDimensions_def getOutlineViewSize_def
  forceUpdate_def loadAd_def ADVIEW_SIZE_banner_def ADVIEW_SIZE_leader_def
  ADVIEW_SIZE_mrec_def

lemmas input_defs =
  adaptiveHeight_def phoneNative_def tabletNative_def uninitializedNative_def styleOf_def
  propsOf_def plainBanner_def adaptiveBanner_def mrecWith_def rejectingNative_def

section \<open>Facts about single steps\<close>

lemma set_remove_nth: "set (take i xs @ drop (Suc i) xs) \<subseteq> set xs"
  by (auto dest: in_set_takeD in_set_dropD)

lemma settle_IsInitializedQ:
  assumes "i < length (pending s)" and "pending s ! i = IsInitializedQ"
  shows "settle native i s =
           thenIsInitialized (nativeIsInitialized native)
             (s\<lparr>pending := take i (pending s) @ drop (Suc i) (pending s)\<rparr>)"
  using assms by (simp add: settle_def)

lemma settle_BannerSizeQ:
  assumes "i < length (pending s)" and "pending s ! i = BannerSizeQ sp adaptive sw formatSize"
  shows "settle native i s =
           thenBannerSize (sizeBannerDimensions native sp adaptive sw formatSize)
             (s\<lparr>pending := take i (pending s) @ drop (Suc i) (pending s)\<rparr>)"
  using assms by (simp add: settle_def)

lemma render_Null_iff:
  "render props s = Null \<longleftrightarrow> \<not> isInitialized s \<or> dimensions s = NoKeys"
  by (cases "dimensions s") (simp_all add: render_def)

text \<open>
  The sizing effect short-circuits on its second run with the same props, whatever the
  format: the requested size it stored is the one it reads.
\<close>

lemma sizingEffect_idem: "sizingEffect props (sizingEffect props s) = sizingEffect props s"
  by (simp add: sizingEffect_def forceUpdate_def Let_def split: prod.splits)

text \<open>The banner continuation compares by value, so the same response twice changes nothing.\<close>

lemma thenBannerSize_idem: "thenBannerSize r (thenBannerSize r s) = thenBannerSize r s"
  by (simp add: thenBannerSize_def forceUpdate_def)

lemma runFrom_append:
  "runFrom native s (xs @ ys) = runFrom native (runFrom native s xs) ys"
  by (induction xs arbitrary: s) simp_all

lemma run_snoc: "run native (events @ [e]) = step native (run native events) e"
  by (simp add: run_def runFrom_append)

section \<open>The initialization flag only follows the native module\<close>

lemma isInitialized_sizingEffect [simp]:
  "isInitialized (sizingEffect props s) = isInitialized s"
  by (simp add: sizingEffect_def forceUpdate_def Let_def split: prod.splits)

lemma isInitialized_renderPass [simp]:
  "isInitialized (renderPass props s) = isInitialized s"
  by (simp add: renderPass_def saveElement_def mountEffect_def Let_def
        split: RenderOutput.splits)

lemma isInitialized_settle:
  "isInitialized (settle native i s) \<Longrightarrow> isInitialized s \<or> nativeIsInitialized native"
  by (auto simp: settle_def thenIsTablet_def thenIsInitialized_def thenBannerSize_def
        forceUpdate_def Let_def split: Request.splits if_splits)

lemma isInitialized_step:
  "isInitialized (step native s e) \<Longrightarrow> isInitialized s \<or> nativeIsInitialized native"
  by (cases e) (auto simp: loadAd_def dest: isInitialized_settle split: option.splits)

lemma isInitialized_runFrom:
  "isInitialized (runFrom native s events) \<Longrightarrow> isInitialized s \<or> nativeIsInitialized native"
proof (induction events arbitrary: s)
  case Nil
  then show ?case by simp
next
  case (Cons e events)
  then have "isInitialized (step native s e) \<or> nativeIsInitialized native" by simp
  then show ?case using isInitialized_step by blast
qed

lemma isInitialized_run:
  "isInitialized (run native events) \<Longrightarrow> nativeIsInitialized native"
  using isInitialized_runFrom [of native initialState events]
  by (simp add: run_def initialState_def)

text \<open>With a module that is not initialized, every render pass returns null.\<close>

lemma outputs_uninitialized:
  assumes "\<not> nativeIsInitialized native" and "\<not> isInitialized s"
  shows "\<forall>out \<in> set (outputsFrom native s events). out = Null"
  using assms(2)
proof (induction events arbitrary: s)
  case Nil
  then show ?case by simp
next
  case (Cons e events)
  have "\<not> isInitialized (step native s e)"
    using isInitialized_step [of native s e] assms(1) Cons.prems by blast
  then have "\<forall>out \<in> set (outputsFrom native (step native s e) events). out = Null"
    by (rule Cons.IH)
  then show ?case using Cons.prems by (cases e) (auto simp: render_def)
qed

lemma outputs_run_uninitialized:
  "\<not> nativeIsInitialized native \<Longrightarrow> \<forall>out \<in> set (outputs native events). out = Null"
  unfolding outputs_def
  by (rule outputs_uninitialized) (simp_all add: initialState_def)

section \<open>No element is saved while every pass returns null\<close>

lemma quiet_sizingEffect: "quiet (sizingEffect props s) = quiet s"
  by (simp add: quiet_def sizingEffect_def forceUpdate_def Let_def split: prod.splits)

lemma quiet_settle: "quiet (settle native i s) = quiet s"
  by (simp add: quiet_def settle_def thenIsTablet_def thenIsInitialized_def thenBannerSize_def
        forceUpdate_def Let_def split: Request.splits)

lemma quiet_loadAd: "quiet s \<Longrightarrow> loadAd s = s"
  by (simp add: quiet_def loadAd_def)

lemma quiet_renderPass:
  assumes "quiet s" and "mounted s \<longrightarrow> render props s = Null"
  shows "quiet (renderPass props s)"
  using assms
  by (cases "mounted s")
     (simp_all add: renderPass_def quiet_sizingEffect Let_def,
      simp_all add: quiet_def saveElement_def mountEffect_def Let_def)

lemma quiet_runFrom:
  assumes "quiet s" and "\<forall>out \<in> set (outputsFrom native s events). out = Null"
  shows "quiet (runFrom native s events)"
  using assms
proof (induction events arbitrary: s)
  case Nil
  then show ?case by simp
next
  case (Cons e events)
  show ?case
  proof (cases e)
    case (Render props)
    with Cons.prems have "quiet (renderPass props s)"
      by (intro quiet_renderPass) auto
    moreover from Cons.prems Render
    have "\<forall>out \<in> set (outputsFrom native (renderPass props s) events). out = Null"
      by simp
    ultimately show ?thesis using Cons.IH Render by simp
  next
    case (Settle i)
    with Cons show ?thesis by (simp add: quiet_settle)
  next
    case LoadAd
    with Cons show ?thesis by (simp add: quiet_loadAd)
  next
    case Unmount
    with Cons.prems have "quiet (s\<lparr>mounted := False\<rparr>)" by (simp add: quiet_def)
    with Cons Unmount show ?thesis by simp
  qed
qed

lemma quiet_run:
  "\<forall>out \<in> set (outputs native events). out = Null \<Longrightarrow> quiet (run native events)"
  unfolding outputs_def run_def
  by (rule quiet_runFrom) (simp_all add: quiet_def initialState_def)

section \<open>A component that is only given the format MREC\<close>

lemma mrecInv_initial: "mrecInv initialState"
  by (simp add: mrecInv_def initialState_def)

lemma mrecInv_settle:
  assumes "mrecInv s"
  shows "mrecInv (settle native i s)"
proof (cases "i < length (pending s)")
  case False
  then show ?thesis using assms by (simp add: settle_def)
next
  case True
  with assms have q: "pending s ! i = IsInitializedQ"
    by (simp add: mrecInv_def)
  have rest: "\<forall>r \<in> set (take i (pending s) @ drop (Suc i) (pending s)). r = IsInitializedQ"
    using assms set_remove_nth [of i "pending s"] by (auto simp: mrecInv_def)
  have "settle native i s =
          thenIsInitialized (nativeIsInitialized native)
            (s\<lparr>pending := take i (pending s) @ drop (Suc i) (pending s)\<rparr>)"
    using True q by (rule settle_IsInitializedQ)
  then show ?thesis
    using assms rest
    by (simp add: thenIsInitialized_def mrecInv_def Let_def)
qed

lemma mrecInv_renderPass:
  assumes "mrecInv s" and "adFormat props = MREC"
  shows "mrecInv (renderPass props s)"
  using assms
  by (auto simp: mrecInv_def renderPass_def saveElement_def mountEffect_def sizingEffect_def
        forceUpdate_def Let_def split: RenderOutput.splits prod.splits)

lemma mrecInv_step:
  assumes "mrecInv s" and "rendersFormat MREC e"
  shows "mrecInv (step native s e)"
  using assms
  by (cases e)
     (simp_all add: mrecInv_renderPass mrecInv_settle,
      simp_all add: mrecInv_def loadAd_def split: option.splits)

lemma mrecInv_runFrom:
  assumes "mrecInv s" and "list_all (rendersFormat MREC) events"
  shows "mrecInv (runFrom native s events)"
  using assms
  by (induction events arbitrary: s) (simp_all add: mrecInv_step)

lemma mrecInv_run:
  "list_all (rendersFormat MREC) events \<Longrightarrow> mrecInv (run native events)"
  by (simp add: run_def mrecInv_runFrom mrecInv_initial)

text \<open>
  After a render pass of a mounted, initialized component the stored requested size is
  the outline size of the style it was given.
\<close>

lemma sizeProps_renderPass:
  assumes "mounted s" and "isInitialized s"
  shows "sizeProps (renderPass props s) =
           Size (Some (fst (getOutlineViewSize (style props))))
                (Some (snd (getOutlineViewSize (style props))))"
proof -
  obtain w h where wh: "getOutlineViewSize (style props) = (w, h)"
    by (cases "getOutlineViewSize (style props)")
  have eq: "widthOf r = Some w \<and> heightOf r = Some h \<longleftrightarrow> r = Size (Some w) (Some h)" for r
    by (cases r) auto
  show ?thesis
    using assms wh
    by (simp add: renderPass_def sizingEffect_def saveElement_def mountEffect_def
          forceUpdate_def Let_def eq split: RenderOutput.splits)
qed

lemma mrec_dimensions_after_pass:
  assumes "list_all (rendersFormat MREC) events" and "adFormat props = MREC"
    and "mounted (run native events)" and "isInitialized (run native events)"
  shows "dimensions (run native (events @ [Render props])) =
           mrecDimensions (fst (getOutlineViewSize (style props)))
             (snd (getOutlineViewSize (style props))) ADVIEW_SIZE_mrec"
proof -
  let ?s = "run native (events @ [Render props])"
  have "list_all (rendersFormat MREC) (events @ [Render props])"
    using assms(1,2) by simp
  then have inv: "mrecInv ?s" by (rule mrecInv_run)
  have "sizeProps ?s = Size (Some (fst (getOutlineViewSize (style props))))
                        (Some (snd (getOutlineViewSize (style props))))"
    using assms(3,4) by (simp add: run_snoc sizeProps_renderPass)
  with inv show ?thesis by (auto simp: mrecInv_def)
qed

section \<open>The format default of a component that is only given the format BANNER\<close>

text \<open>
  Only the continuation of the tablet query writes the format default of a banner, so
  along every run it is either still empty or the table entry for the device.
\<close>

lemma adFormatSize_sizingEffect [simp]:
  "adFormatSize (sizingEffect props s) = adFormatSize s"
  by (simp add: sizingEffect_def forceUpdate_def Let_def split: prod.splits)

lemma adFormatSize_renderPass_banner:
  "adFormat props = BANNER \<Longrightarrow> adFormatSize (renderPass props s) = adFormatSize s"
  by (simp add: renderPass_def saveElement_def mountEffect_def Let_def
        split: RenderOutput.splits)

lemma adFormatSize_settle:
  "adFormatSize (settle native i s) = adFormatSize s
   \<or> adFormatSize (settle native i s)
       = (if nativeIsTablet native then ADVIEW_SIZE_leader else ADVIEW_SIZE_banner)"
  by (simp add: settle_def thenIsTablet_def thenIsInitialized_def thenBannerSize_def
        forceUpdate_def Let_def split: Request.splits)

lemma adFormatSize_step_banner:
  assumes "rendersFormat BANNER e"
  shows "adFormatSize (step native s e) = adFormatSize s
   \<or> adFormatSize (step native s e)
       = (if nativeIsTablet native then ADVIEW_SIZE_leader else ADVIEW_SIZE_banner)"
proof (cases e)
  case (Render props)
  with assms show ?thesis by (simp add: adFormatSize_renderPass_banner)
next
  case (Settle i)
  then show ?thesis using adFormatSize_settle [of native i s] by simp
next
  case LoadAd
  then show ?thesis by (simp add: loadAd_def split: option.splits)
next
  case Unmount
  then show ?thesis by simp
qed

lemma adFormatSize_runFrom_banner:
  assumes "list_all (rendersFormat BANNER) events"
  shows "adFormatSize (runFrom native s events) = adFormatSize s
   \<or> adFormatSize (runFrom native s events)
       = (if nativeIsTablet native then ADVIEW_SIZE_leader else ADVIEW_SIZE_banner)"
  using assms
proof (induction events arbitrary: s)
  case Nil
  then show ?case by simp
next
  case (Cons e events)
  then have e: "rendersFormat BANNER e" and rest: "list_all (rendersFormat BANNER) events"
    by simp_all
  from Cons.IH [OF rest, of "step native s e"] adFormatSize_step_banner [OF e, of native s]
  show ?case by auto
qed

lemma adFormatSize_run_banner:
  assumes "list_all (rendersFormat BANNER) events"
    and "adFormatSize (run native events) \<noteq> NoKeys"
  shows "adFormatSize (run native events)
           = (if nativeIsTablet native then ADVIEW_SIZE_leader else ADVIEW_SIZE_banner)"
  using adFormatSize_runFrom_banner [OF assms(1), of native initialState] assms(2)
  by (auto simp: run_def initialState_def)

section \<open>The values of a stored size\<close>

text \<open>
  In a run in which every render pass has the format MREC or the adaptive flag, the
  native view is only ever returned with a defined width and a defined height.
\<close>

lemma list_all_remove_nth:
  "list_all P xs \<Longrightarrow> list_all P (take i xs @ drop (Suc i) xs)"
  by (auto simp: list_all_iff dest: in_set_takeD in_set_dropD)

lemma sizedInv_initial: "sizedInv initialState"
  by (simp add: sizedInv_def initialState_def)

lemma sizedInv_thenBannerSize:
  assumes "sizedInv s" and "widthOf r \<noteq> None" and "heightOf r \<noteq> None"
  shows "sizedInv (thenBannerSize r s)"
  using assms by (auto simp: sizedInv_def thenBannerSize_def forceUpdate_def)

lemma sizeBannerDimensions_defined:
  assumes "widthOf sp \<noteq> None" and "heightOf sp \<noteq> None"
  shows "widthOf (sizeBannerDimensions native sp True sw formatSize) \<noteq> None
     \<and> heightOf (sizeBannerDimensions native sp True sw formatSize) \<noteq> None"
  using assms by (simp add: sizeBannerDimensions_def)

lemma sizedInv_settle:
  assumes "sizedInv s"
  shows "sizedInv (settle native i s)"
proof (cases "i < length (pending s)")
  case False
  then show ?thesis using assms by (simp add: settle_def)
next
  case True
  let ?s1 = "s\<lparr>pending := take i (pending s) @ drop (Suc i) (pending s)\<rparr>"
  have s1: "sizedInv ?s1"
    using assms list_all_remove_nth [of definedRequest "pending s" i]
    by (simp add: sizedInv_def)
  from assms True have req: "definedRequest (pending s ! i)"
    by (simp add: sizedInv_def list_all_length)
  show ?thesis
  proof (cases "pending s ! i")
    case IsTabletQ
    then have "settle native i s = thenIsTablet (nativeIsTablet native) ?s1"
      using True by (simp add: settle_def)
    then show ?thesis
      using s1 by (simp add: sizedInv_def thenIsTablet_def ADVIEW_SIZE_leader_def
                     ADVIEW_SIZE_banner_def)
  next
    case IsInitializedQ
    then have "settle native i s = thenIsInitialized (nativeIsInitialized native) ?s1"
      using True by (simp add: settle_def)
    then show ?thesis
      using s1 by (simp add: sizedInv_def thenIsInitialized_def Let_def)
  next
    case (BannerSizeQ sp adaptive sw formatSize)
    then have eq: "settle native i s =
        thenBannerSize (sizeBannerDimensions native sp adaptive sw formatSize) ?s1"
      using True by (simp add: settle_def)
    from req BannerSizeQ have "widthOf sp \<noteq> None" "heightOf sp \<noteq> None" "adaptive"
      by simp_all
    then show ?thesis
      using s1 sizeBannerDimensions_defined [of sp native sw formatSize]
      by (simp add: eq sizedInv_thenBannerSize)
  qed
qed

lemma sizedInv_mountEffect:
  "sizedInv s \<Longrightarrow> sizedInv (mountEffect fmt s)"
  by (simp add: sizedInv_def mountEffect_def Let_def ADVIEW_SIZE_mrec_def)

lemma effectFormat_mountEffect: "effectFormat (mountEffect fmt s) = Some fmt"
  by (simp add: mountEffect_def Let_def)

lemma sizedInv_sizingEffect:
  assumes "sizedInv s" and "adFormat props = MREC \<or> adaptiveBannerEnabled props"
    and "adFormat props = MREC \<longrightarrow> effectFormat s = Some MREC"
  shows "sizedInv (sizingEffect props s)"
proof (cases "adFormat props")
  case BANNER
  with assms show ?thesis
    by (simp add: sizedInv_def sizingEffect_def forceUpdate_def Let_def split: prod.splits)
next
  case MREC
  with assms show ?thesis
    by (auto simp: sizedInv_def sizingEffect_def mrecDimensions_def forceUpdate_def Let_def
          split: prod.splits)
qed

lemma sizedInv_saveElement: "sizedInv (saveElement e s) = sizedInv s"
  by (simp add: sizedInv_def saveElement_def split: option.splits)

lemma effectFormat_saveElement: "effectFormat (saveElement e s) = effectFormat s"
  by (simp add: saveElement_def split: option.splits)

lemma sizedInv_renderPass:
  assumes "sizedInv s" and "adFormat props = MREC \<or> adaptiveBannerEnabled props"
  shows "sizedInv (renderPass props s)"
proof (cases "mounted s")
  case False
  then show ?thesis using assms by (simp add: renderPass_def)
next
  case True
  define s1 where "s1 = (case render props s of
                     Null \<Rightarrow> saveElement None s
                   | AdViewComponent w h \<Rightarrow> saveElement (Some AdViewElement) s)"
  define s2 where "s2 = (if effectFormat s1 \<noteq> Some (adFormat props)
                   then mountEffect (adFormat props) s1 else s1)"
  have r: "renderPass props s = sizingEffect props s2"
    using True by (simp add: renderPass_def s1_def s2_def Let_def)
  have i1: "sizedInv s1"
    using assms(1) by (simp add: s1_def sizedInv_saveElement split: RenderOutput.splits)
  have i2: "sizedInv s2"
    using i1 by (simp add: s2_def sizedInv_mountEffect)
  have e2: "effectFormat s2 = Some (adFormat props)"
    by (simp add: s2_def effectFormat_mountEffect)
  show ?thesis
    unfolding r using i2 assms(2) e2 by (intro sizedInv_sizingEffect) simp_all
qed

lemma sizedInv_step:
  assumes "sizedInv s" and "adaptiveOrMrec e"
  shows "sizedInv (step native s e)"
proof (cases e)
  case (Render props)
  with assms show ?thesis by (simp add: sizedInv_renderPass)
next
  case (Settle i)
  with assms show ?thesis by (simp add: sizedInv_settle)
next
  case LoadAd
  with assms show ?thesis by (simp add: sizedInv_def loadAd_def split: option.splits)
next
  case Unmount
  with assms show ?thesis by (simp add: sizedInv_def)
qed

lemma sizedInv_runFrom:
  assumes "sizedInv s" and "list_all adaptiveOrMrec events"
  shows "sizedInv (runFrom native s events)"
  using assms
  by (induction events arbitrary: s) (simp_all add: sizedInv_step)

lemma rendered_size_defined:
  assumes "list_all adaptiveOrMrec events"
    and "render props (run native events) = AdViewComponent w h"
  shows "w \<noteq> None \<and> h \<noteq> None"
proof -
  have inv: "sizedInv (run native events)"
    using assms(1) by (simp add: run_def sizedInv_runFrom sizedInv_initial)
  from assms(2) have "dimensions (run native events) = Size w h"
    by (cases "dimensions (run native events)")
       (simp_all add: render_def split: if_splits)
  with inv show ?thesis by (auto simp: sizedInv_def)
qed

text \<open>In every run the native view is only ever returned with a defined width.\<close>

lemma widthInv_initial: "widthInv initialState"
  by (simp add: widthInv_def initialState_def)

lemma widthInv_settle:
  assumes "widthInv s"
  shows "widthInv (settle native i s)"
proof (cases "i < length (pending s)")
  case False
  then show ?thesis using assms by (simp add: settle_def)
next
  case True
  let ?s1 = "s\<lparr>pending := take i (pending s) @ drop (Suc i) (pending s)\<rparr>"
  have s1: "widthInv ?s1"
    using assms list_all_remove_nth [of widthRequest "pending s" i]
    by (simp add: widthInv_def)
  from assms True have req: "widthRequest (pending s ! i)"
    by (simp add: widthInv_def list_all_length)
  show ?thesis
  proof (cases "pending s ! i")
    case IsTabletQ
    then have "settle native i s = thenIsTablet (nativeIsTablet native) ?s1"
      using True by (simp add: settle_def)
    then show ?thesis
      using s1 by (simp add: widthInv_def thenIsTablet_def ADVIEW_SIZE_leader_def
                     ADVIEW_SIZE_banner_def)
  next
    case IsInitializedQ
    then have "settle native i s = thenIsInitialized (nativeIsInitialized native) ?s1"
      using True by (simp add: settle_def)
    then show ?thesis
      using s1 by (simp add: widthInv_def thenIsInitialized_def Let_def)
  next
    case (BannerSizeQ sp adaptive sw formatSize)
    then have eq: "settle native i s =
        thenBannerSize (sizeBannerDimensions native sp adaptive sw formatSize) ?s1"
      using True by (simp add: settle_def)
    from req BannerSizeQ have "widthOf sp \<noteq> None" by simp
    then have "widthOf (sizeBannerDimensions native sp adaptive sw formatSize) \<noteq> None"
      by (simp add: sizeBannerDimensions_def)
    then show ?thesis
      using s1 by (auto simp: eq widthInv_def thenBannerSize_def forceUpdate_def)
  qed
qed

lemma widthInv_renderPass:
  assumes "widthInv s"
  shows "widthInv (renderPass props s)"
proof (cases "mounted s")
  case False
  then show ?thesis using assms by (simp add: renderPass_def)
next
  case True
  define s1 where "s1 = (case render props s of
                     Null \<Rightarrow> saveElement None s
                   | AdViewComponent w h \<Rightarrow> saveElement (Some AdViewElement) s)"
  define s2 where "s2 = (if effectFormat s1 \<noteq> Some (adFormat props)
                   then mountEffect (adFormat props) s1 else s1)"
  have r: "renderPass props s = sizingEffect props s2"
    using True by (simp add: renderPass_def s1_def s2_def Let_def)
  have i1: "widthInv s1"
    using assms by (simp add: s1_def widthInv_def saveElement_def split: RenderOutput.splits)
  have i2: "widthInv s2"
    using i1 by (simp add: s2_def widthInv_def mountEffect_def Let_def ADVIEW_SIZE_mrec_def)
  have e2: "effectFormat s2 = Some (adFormat props)"
    by (simp add: s2_def effectFormat_mountEffect)
  show ?thesis
  proof (cases "adFormat props")
    case BANNER
    with i2 show ?thesis
      unfolding r
      by (simp add: widthInv_def sizingEffect_def forceUpdate_def Let_def split: prod.splits)
  next
    case MREC
    with i2 e2 show ?thesis
      unfolding r
      by (auto simp: widthInv_def sizingEffect_def mrecDimensions_def forceUpdate_def Let_def
            split: prod.splits)
  qed
qed

lemma widthInv_step: "widthInv s \<Longrightarrow> widthInv (step native s e)"
  by (cases e)
     (simp_all add: widthInv_renderPass widthInv_settle,
      simp_all add: widthInv_def loadAd_def split: option.splits)

lemma widthInv_runFrom: "widthInv s \<Longrightarrow> widthInv (runFrom native s events)"
  by (induction events arbitrary: s) (simp_all add: widthInv_step)

lemma rendered_width_defined:
  assumes "render props (run native events) = AdViewComponent w h"
  shows "w \<noteq> None"
proof -
  have inv: "widthInv (run native events)"
    by (simp add: run_def widthInv_runFrom widthInv_initial)
  from assms have "dimensions (run native events) = Size w h"
    by (cases "dimensions (run native events)")
       (simp_all add: render_def split: if_splits)
  with inv show ?thesis by (auto simp: widthInv_def)
qed

section \<open>Resolution of the banner size\<close>



text \<open>
  Claim C2: where the requested width is unspecified (the style has no width, which
  \<open>getOutlineViewSize\<close> turns into 'auto'), the banner resolution yields the current
  screen width and the MREC resolution yields the width 300 of the format default.
  The third part follows the MREC path through the component: in a component that is
  only given the format MREC, a render pass of the mounted, initialized component with
  a style without width leaves the stored width at 300.
\<close>

theorem C2_unspecified_width:
  "widthOf (sizeBannerDimensions native
              (Size (Some (fst (getOutlineViewSize \<lparr>styleWidth = None, styleHeight = sh\<rparr>))) h)
              adaptive sw formatSize) = Some (Num sw)
   \<and> widthOf (mrecDimensions (fst (getOutlineViewSize \<lparr>styleWidth = None, styleHeight = sh\<rparr>))
                height ADVIEW_SIZE_mrec) = Some (Num 300)
   \<and> (list_all (rendersFormat MREC) events \<and> adFormat props = MREC
        \<and> styleWidth (style props) = None
        \<and> mounted (run native' events) \<and> isInitialized (run native' events)
      \<longrightarrow> widthOf (dimensions (run native' (events @ [Render props]))) = Some (Num 300))"
proof (intro conjI impI)
  show "widthOf (sizeBannerDimensions native
              (Size (Some (fst (getOutlineViewSize \<lparr>styleWidth = None, styleHeight = sh\<rparr>))) h)
              adaptive sw formatSize) = Some (Num sw)"
    by (simp add: sizeBannerDimensions_def getOutlineViewSize_def)
  show "widthOf (mrecDimensions (fst (getOutlineViewSize \<lparr>styleWidth = None, styleHeight = sh\<rparr>))
                height ADVIEW_SIZE_mrec) = Some (Num 300)"
    by (simp add: mrecDimensions_def getOutlineViewSize_def ADVIEW_SIZE_mrec_def)
next
  assume a: "list_all (rendersFormat MREC) events \<and> adFormat props = MREC
        \<and> styleWidth (style props) = None
        \<and> mounted (run native' events) \<and> isInitialized (run native' events)"
  then have "dimensions (run native' (events @ [Render props])) =
           mrecDimensions (fst (getOutlineViewSize (style props)))
             (snd (getOutlineViewSize (style props))) ADVIEW_SIZE_mrec"
    by (intro mrec_dimensions_after_pass) simp_all
  with a show "widthOf (dimensions (run native' (events @ [Render props]))) = Some (Num 300)"
    by (simp add: mrecDimensions_def getOutlineViewSize_def ADVIEW_SIZE_mrec_def)
qed

text \<open>
  The theorem of C2 at a concrete run: an MREC is mounted with an empty style, the
  module reports that it is initialized, and the next pass has a style with a height only.
\<close>

theorem C2_unspecified_width_witness:
  "list_all (rendersFormat MREC) [Render (mrecWith None None), Settle 0]
   \<and> adFormat (mrecWith None (Some (Num 250))) = MREC
   \<and> styleWidth (style (mrecWith None (Some (Num 250)))) = None
   \<and> mounted (run phoneNative [Render (mrecWith None None), Settle 0])
   \<and> isInitialized (run phoneNative [Render (mrecWith None None), Settle 0])
   \<and> widthOf (dimensions (run phoneNative
        ([Render (mrecWith None None), Settle 0] @ [Render (mrecWith None (Some (Num 250)))])))
      = Some (Num 300)
   \<and> widthOf (sizeBannerDimensions phoneNative
              (Size (Some (fst (getOutlineViewSize \<lparr>styleWidth = None, styleHeight = None\<rparr>)))
                 (Some Auto)) True 390 NoKeys) = Some (Num 390)"
proof -
  have pre: "list_all (rendersFormat MREC) [Render (mrecWith None None), Settle 0]
     \<and> adFormat (mrecWith None (Some (Num 250))) = MREC
     \<and> styleWidth (style (mrecWith None (Some (Num 250)))) = None
     \<and> mounted (run phoneNative [Render (mrecWith None None), Settle 0])
     \<and> isInitialized (run phoneNative [Render (mrecWith None None), Settle 0])"
    by (simp add: model_defs input_defs)
  show ?thesis
    using pre
      C2_unspecified_width [where native = phoneNative and sh = None and h = "Some Auto"
        and adaptive = True and sw = 390 and formatSize = NoKeys and native' = phoneNative
        and events = "[Render (mrecWith None None), Settle 0]"
        and props = "mrecWith None (Some (Num 250))"]
    by blast
qed

text \<open>
  Claim C3: a style whose width and height are both concrete (neither missing nor
  'auto') is read as it is, and both resolutions return exactly these two values, for
  every native module, adaptive flag, screen width and format default.
\<close>

theorem C3_concrete_size_unchanged:
  assumes "w \<noteq> Auto" and "h \<noteq> Auto"
  shows "getOutlineViewSize \<lparr>styleWidth = Some w, styleHeight = Some h\<rparr> = (w, h)
     \<and> sizeBannerDimensions native (Size (Some w) (Some h)) adaptive sw formatSize
         = Size (Some w) (Some h)
     \<and> mrecDimensions w h formatSize = Size (Some w) (Some h)"
  using assms
  by (simp add: getOutlineViewSize_def sizeBannerDimensions_def mrecDimensions_def)

text \<open>The theorem of C3 at the style 300 by 50 percent.\<close>

theorem C3_concrete_size_unchanged_witness:
  "Num 300 \<noteq> Auto \<and> Percent 50 \<noteq> Auto
   \<and> getOutlineViewSize \<lparr>styleWidth = Some (Num 300), styleHeight = Some (Percent 50)\<rparr>
       = (Num 300, Percent 50)
   \<and> sizeBannerDimensions tabletNative (Size (Some (Num 300)) (Some (Percent 50))) True 1024
        ADVIEW_SIZE_leader = Size (Some (Num 300)) (Some (Percent 50))
   \<and> mrecDimensions (Num 300) (Percent 50) ADVIEW_SIZE_mrec
       = Size (Some (Num 300)) (Some (Percent 50))"
proof -
  have w: "Num 300 \<noteq> Auto" and h: "Percent 50 \<noteq> Auto" by simp_all
  show ?thesis
    using w h
      C3_concrete_size_unchanged [OF w h, of tabletNative True 1024 ADVIEW_SIZE_leader]
      C3_concrete_size_unchanged [OF w h, of tabletNative True 1024 ADVIEW_SIZE_mrec]
    by simp
qed

text \<open>
  Without the adaptive flag and with the requested height unspecified, the banner
  resolution returns the height of the format default it is given. The format default
  that the tablet query's continuation stores is 320 by 50 on a phone and 728 by 90 on a
  tablet, the one the mount effect stores for an MREC is 300 by 250. Along every run of a
  component that is only given the format BANNER, once a format default is stored, the
  resolution with it yields the height 50 on a phone and 90 on a tablet.
\<close>

lemma banner_height_from_stored_default:
  "heightOf (sizeBannerDimensions native (Size w (Some Auto)) False sw formatSize)
     = heightOf formatSize
   \<and> adFormatSize (thenIsTablet False s) = Size (Some (Num 320)) (Some (Num 50))
   \<and> adFormatSize (thenIsTablet True s) = Size (Some (Num 728)) (Some (Num 90))
   \<and> adFormatSize (mountEffect MREC s) = Size (Some (Num 300)) (Some (Num 250))
   \<and> (list_all (rendersFormat BANNER) events \<and> adFormatSize (run native events) \<noteq> NoKeys
        \<longrightarrow> heightOf (sizeBannerDimensions native (Size w (Some Auto)) False sw
                        (adFormatSize (run native events)))
            = Some (Num (if nativeIsTablet native then 90 else 50)))"
proof (intro conjI impI)
  assume "list_all (rendersFormat BANNER) events \<and> adFormatSize (run native events) \<noteq> NoKeys"
  then have "adFormatSize (run native events)
               = (if nativeIsTablet native then ADVIEW_SIZE_leader else ADVIEW_SIZE_banner)"
    by (simp add: adFormatSize_run_banner)
  then show "heightOf (sizeBannerDimensions native (Size w (Some Auto)) False sw
                        (adFormatSize (run native events)))
            = Some (Num (if nativeIsTablet native then 90 else 50))"
    by (simp add: sizeBannerDimensions_def ADVIEW_SIZE_banner_def ADVIEW_SIZE_leader_def)
qed (simp_all add: sizeBannerDimensions_def thenIsTablet_def mountEffect_def
       ADVIEW_SIZE_banner_def ADVIEW_SIZE_leader_def ADVIEW_SIZE_mrec_def)

text \<open>
  The same on a tablet whose queries are answered in the order they were issued, with
  the heights the component stores there and on a phone.
\<close>

lemma banner_height_from_stored_default_example:
  "list_all (rendersFormat BANNER) [Render plainBanner, Settle 0, Settle 0, Render plainBanner]
   \<and> adFormatSize (run tabletNative [Render plainBanner, Settle 0, Settle 0, Render plainBanner])
       \<noteq> NoKeys
   \<and> heightOf (sizeBannerDimensions tabletNative (Size (Some Auto) (Some Auto)) False 390
        (adFormatSize (run tabletNative
           [Render plainBanner, Settle 0, Settle 0, Render plainBanner])))
       = Some (Num 90)
   \<and> heightOf (dimensions (run tabletNative
        [Render plainBanner, Settle 0, Settle 0, Render plainBanner, Settle 0]))
       = Some (Num 90)
   \<and> heightOf (dimensions (run phoneNative
        [Render plainBanner, Settle 0, Settle 0, Render plainBanner, Settle 0]))
       = Some (Num 50)"
proof -
  have pre: "list_all (rendersFormat BANNER)
               [Render plainBanner, Settle 0, Settle 0, Render plainBanner]
     \<and> adFormatSize (run tabletNative
           [Render plainBanner, Settle 0, Settle 0, Render plainBanner]) \<noteq> NoKeys"
    by (simp add: model_defs input_defs)
  have runs: "heightOf (dimensions (run tabletNative
        [Render plainBanner, Settle 0, Settle 0, Render plainBanner, Settle 0]))
       = Some (Num 90)
   \<and> heightOf (dimensions (run phoneNative
        [Render plainBanner, Settle 0, Settle 0, Render plainBanner, Settle 0]))
       = Some (Num 50)"
    by (simp add: model_defs input_defs)
  have tab: "nativeIsTablet tabletNative" by (simp add: input_defs)
  show ?thesis
    using pre runs tab
      banner_height_from_stored_default [where native = tabletNative and w = "Some Auto" and sw = 390
        and formatSize = NoKeys and s = initialState
        and events = "[Render plainBanner, Settle 0, Settle 0, Render plainBanner]"]
    by simp
qed

text \<open>
  Claim C4 at the input where the code departs from it: a banner without the adaptive
  flag, with the style width 728 and no height, on a tablet with a screen 1024 wide. The
  initialization query is answered before the tablet query, so the sizing runs while the
  format default is still the empty record: the resolved height is undefined, not the 90
  of the format default. When the tablet query is answered afterwards the format default
  becomes 728 by 90, but the next render pass finds the requested size unchanged and
  does not resolve again: the stored height stays undefined and the native view is
  returned with it.
\<close>

theorem C4_height_undefined_when_default_is_late:
  "heightOf (sizeBannerDimensions tabletNative (Size (Some (Num 728)) (Some Auto)) False 1024
               NoKeys) = None
   \<and> dimensions (run tabletNative
        [Render (propsOf BANNER False (styleOf (Some (Num 728)) None) 1024), Settle 1,
         Render (propsOf BANNER False (styleOf (Some (Num 728)) None) 1024), Settle 1])
       = Size (Some (Num 728)) None
   \<and> adFormatSize (run tabletNative
        [Render (propsOf BANNER False (styleOf (Some (Num 728)) None) 1024), Settle 1,
         Render (propsOf BANNER False (styleOf (Some (Num 728)) None) 1024), Settle 1,
         Render (propsOf BANNER False (styleOf (Some (Num 728)) None) 1024), Settle 0,
         Render (propsOf BANNER False (styleOf (Some (Num 728)) None) 1024)])
       = Size (Some (Num 728)) (Some (Num 90))
   \<and> dimensions (run tabletNative
        [Render (propsOf BANNER False (styleOf (Some (Num 728)) None) 1024), Settle 1,
         Render (propsOf BANNER False (styleOf (Some (Num 728)) None) 1024), Settle 1,
         Render (propsOf BANNER False (styleOf (Some (Num 728)) None) 1024), Settle 0,
         Render (propsOf BANNER False (styleOf (Some (Num 728)) None) 1024)])
       = Size (Some (Num 728)) None
   \<and> render (propsOf BANNER False (styleOf (Some (Num 728)) None) 1024)
        (run tabletNative
          [Render (propsOf BANNER False (styleOf (Some (Num 728)) None) 1024), Settle 1,
           Render (propsOf BANNER False (styleOf (Some (Num 728)) None) 1024), Settle 1,
           Render (propsOf BANNER False (styleOf (Some (Num 728)) None) 1024), Settle 0,
           Render (propsOf BANNER False (styleOf (Some (Num 728)) None) 1024)])
       = AdViewComponent (Some (Num 728)) None"
  by (simp add: model_defs input_defs)

text \<open>
  Claim C9: a banner without the adaptive flag and with an empty style is mounted; the
  initialization query is answered before the tablet query; the render pass that
  follows starts the sizing, whose promise resolves. The tablet query is then still
  outstanding and the format default still empty, the stored dimensions are the screen
  width 390 and an undefined height, and the next render pass returns the native view
  with that undefined height.
\<close>

theorem C9_height_undefined_before_tablet_answer:
  "pending (run phoneNative [Render plainBanner, Settle 1, Render plainBanner, Settle 1])
     = [IsTabletQ]
   \<and> adFormatSize (run phoneNative [Render plainBanner, Settle 1, Render plainBanner, Settle 1])
     = NoKeys
   \<and> dimensions (run phoneNative [Render plainBanner, Settle 1, Render plainBanner, Settle 1])
     = Size (Some (Num 390)) None
   \<and> render plainBanner
        (run phoneNative [Render plainBanner, Settle 1, Render plainBanner, Settle 1])
     = AdViewComponent (Some (Num 390)) None"
  by (simp add: model_defs input_defs)

section \<open>Notification of the host\<close>

text \<open>
  Claim C5 at the input where the code departs from it: an MREC is mounted with the
  style width 300 (no height); once the module has reported that it is initialized, the
  sizing effect stores 300 by 250 and calls \<open>forceUpdate\<close>; the pass that this forces
  changes nothing. Then the style becomes height 250 (no width). The resolved pair is
  again 300 by 250, equal by value to the stored one, and the MREC branch calls
  \<open>forceUpdate\<close> a second time, where the banner branch (\<open>thenBannerSize\<close>) would compare
  and stay silent.
\<close>

theorem C5_mrec_notifies_without_change:
  "dimensions (run phoneNative
      [Render (mrecWith (Some (Num 300)) None), Settle 0,
       Render (mrecWith (Some (Num 300)) None), Render (mrecWith (Some (Num 300)) None)])
     = Size (Some (Num 300)) (Some (Num 250))
   \<and> forceUpdates (run phoneNative
      [Render (mrecWith (Some (Num 300)) None), Settle 0,
       Render (mrecWith (Some (Num 300)) None), Render (mrecWith (Some (Num 300)) None)]) = 1
   \<and> dimensions (run phoneNative
      [Render (mrecWith (Some (Num 300)) None), Settle 0,
       Render (mrecWith (Some (Num 300)) None), Render (mrecWith (Some (Num 300)) None),
       Render (mrecWith None (Some (Num 250)))])
     = Size (Some (Num 300)) (Some (Num 250))
   \<and> forceUpdates (run phoneNative
      [Render (mrecWith (Some (Num 300)) None), Settle 0,
       Render (mrecWith (Some (Num 300)) None), Render (mrecWith (Some (Num 300)) None),
       Render (mrecWith None (Some (Num 250)))]) = 2"
  by (simp add: model_defs input_defs)

text \<open>
  Claim C7, as stated, at two concrete runs of an adaptive banner. In the first, the
  component is unmounted while its sizing query is outstanding; when the query resolves,
  the stored dimensions change from empty to 100 by 50 and \<open>forceUpdate\<close> is called. In
  the second, the style width changes from 100 to 200 while the first sizing query is
  outstanding, the second query resolves first and the first one last: the late
  response of the superseded request replaces the stored 200 by 50 with 100 by 50 and
  \<open>forceUpdate\<close> is called again, although the requested width is still 200.
\<close>

theorem C7_counterexample:
  "dimensions (run phoneNative
      [Render (adaptiveBanner 100), Settle 0, Settle 0, Render (adaptiveBanner 100), Unmount])
     = NoKeys
   \<and> forceUpdates (run phoneNative
      [Render (adaptiveBanner 100), Settle 0, Settle 0, Render (adaptiveBanner 100), Unmount])
     = 0
   \<and> dimensions (run phoneNative
      [Render (adaptiveBanner 100), Settle 0, Settle 0, Render (adaptiveBanner 100), Unmount,
       Settle 0])
     = Size (Some (Num 100)) (Some (Num 50))
   \<and> forceUpdates (run phoneNative
      [Render (adaptiveBanner 100), Settle 0, Settle 0, Render (adaptiveBanner 100), Unmount,
       Settle 0])
     = 1
   \<and> dimensions (run phoneNative
      [Render (adaptiveBanner 100), Settle 0, Settle 0, Render (adaptiveBanner 100),
       Render (adaptiveBanner 200), Settle 1])
     = Size (Some (Num 200)) (Some (Num 50))
   \<and> forceUpdates (run phoneNative
      [Render (adaptiveBanner 100), Settle 0, Settle 0, Render (adaptiveBanner 100),
       Render (adaptiveBanner 200), Settle 1])
     = 1
   \<and> sizeProps (run phoneNative
      [Render (adaptiveBanner 100), Settle 0, Settle 0, Render (adaptiveBanner 100),
       Render (adaptiveBanner 200), Settle 1, Settle 0])
     = Size (Some (Num 200)) (Some Auto)
   \<and> dimensions (run phoneNative
      [Render (adaptiveBanner 100), Settle 0, Settle 0, Render (adaptiveBanner 100),
       Render (adaptiveBanner 200), Settle 1, Settle 0])
     = Size (Some (Num 100)) (Some (Num 50))
   \<and> forceUpdates (run phoneNative
      [Render (adaptiveBanner 100), Settle 0, Settle 0, Render (adaptiveBanner 100),
       Render (adaptiveBanner 200), Settle 1, Settle 0])
     = 2"
  by (simp add: model_defs input_defs)

text \<open>
  Claim C7, amended: no response is discarded for being late. Whenever an outstanding
  banner sizing query resolves, in any state (mounted or not, with or without a newer
  request), its result is compared by value with the stored dimensions; afterwards the
  stored dimensions are those of this response, and \<open>forceUpdate\<close> has been called
  exactly when the response differed from what was stored. So the last response to
  arrive wins, not the last request.
\<close>

theorem C7_late_response_is_applied:
  assumes "i < length (pending s)"
    and "pending s ! i = BannerSizeQ sp adaptive sw formatSize"
  shows "widthOf (dimensions (settle native i s))
           = widthOf (sizeBannerDimensions native sp adaptive sw formatSize)
     \<and> heightOf (dimensions (settle native i s))
           = heightOf (sizeBannerDimensions native sp adaptive sw formatSize)
     \<and> forceUpdates (settle native i s)
           = (if widthOf (dimensions s)
                   = widthOf (sizeBannerDimensions native sp adaptive sw formatSize)
                 \<and> heightOf (dimensions s)
                   = heightOf (sizeBannerDimensions native sp adaptive sw formatSize)
              then forceUpdates s else Suc (forceUpdates s))"
  using assms
  by (simp add: settle_BannerSizeQ thenBannerSize_def forceUpdate_def)

text \<open>
  The theorem of C7 in the state of an unmounted component whose sizing query for the
  declared width 100 is still outstanding.
\<close>

theorem C7_late_response_is_applied_witness:
  "0 < length (pending (run phoneNative
        [Render (adaptiveBanner 100), Settle 0, Settle 0, Render (adaptiveBanner 100), Unmount]))
   \<and> pending (run phoneNative
        [Render (adaptiveBanner 100), Settle 0, Settle 0, Render (adaptiveBanner 100), Unmount])
       ! 0 = BannerSizeQ (Size (Some (Num 100)) (Some Auto)) True 390 ADVIEW_SIZE_banner
   \<and> \<not> mounted (run phoneNative
        [Render (adaptiveBanner 100), Settle 0, Settle 0, Render (adaptiveBanner 100), Unmount])
   \<and> widthOf (dimensions (settle phoneNative 0 (run phoneNative
        [Render (adaptiveBanner 100), Settle 0, Settle 0, Render (adaptiveBanner 100),
         Unmount]))) = Some (Num 100)
   \<and> heightOf (dimensions (settle phoneNative 0 (run phoneNative
        [Render (adaptiveBanner 100), Settle 0, Settle 0, Render (adaptiveBanner 100),
         Unmount]))) = Some (Num 50)
   \<and> forceUpdates (settle phoneNative 0 (run phoneNative
        [Render (adaptiveBanner 100), Settle 0, Settle 0, Render (adaptiveBanner 100),
         Unmount])) = 1"
proof -
  let ?s = "run phoneNative
        [Render (adaptiveBanner 100), Settle 0, Settle 0, Render (adaptiveBanner 100), Unmount]"
  have len: "0 < length (pending ?s)"
    by (simp add: model_defs input_defs)
  have req: "pending ?s ! 0
               = BannerSizeQ (Size (Some (Num 100)) (Some Auto)) True 390 ADVIEW_SIZE_banner"
    by (simp add: model_defs input_defs)
  have st: "\<not> mounted ?s \<and> dimensions ?s = NoKeys \<and> forceUpdates ?s = 0"
    by (simp add: model_defs input_defs)
  have res: "sizeBannerDimensions phoneNative (Size (Some (Num 100)) (Some Auto)) True 390
               ADVIEW_SIZE_banner = Size (Some (Num 100)) (Some (Num 50))"
    by (simp add: sizeBannerDimensions_def input_defs)
  show ?thesis
    using len req st C7_late_response_is_applied [OF len req, of phoneNative]
    by (simp add: res)
qed

section \<open>Gating of the native view\<close>

text \<open>
  What the two tests at the end of the render body do ensure. The component returns the native view
  exactly when its initialization flag is set and a size has been stored, and null
  otherwise. In every state reached from the mount, a native view is returned only if
  the native module has reported that it is initialized. With a module that is not
  initialized every render pass returns null and no view-manager command is ever
  dispatched; the answer of the initialization query then logs the warning, clears the
  flag and leaves the queue of outstanding queries without a new one, and changes
  nothing else.
\<close>

lemma native_view_gating:
  "(render props s \<noteq> Null \<longleftrightarrow> isInitialized s \<and> dimensions s \<noteq> NoKeys)
   \<and> (render props (run native events) \<noteq> Null
        \<longrightarrow> nativeIsInitialized native \<and> dimensions (run native events) \<noteq> NoKeys)
   \<and> (\<not> nativeIsInitialized native'
        \<longrightarrow> (\<forall>out \<in> set (outputs native' events'). out = Null)
            \<and> commands (run native' events') = [])
   \<and> (\<not> nativeIsInitialized native' \<and> i < length (pending s')
        \<and> pending s' ! i = IsInitializedQ
        \<longrightarrow> settle native' i s' =
              s'\<lparr>pending := take i (pending s') @ drop (Suc i) (pending s'),
                  isInitialized := False,
                  warnings := warnings s' @ [initWarning]\<rparr>)"
proof (intro conjI impI)
  show "render props s \<noteq> Null \<longleftrightarrow> isInitialized s \<and> dimensions s \<noteq> NoKeys"
    by (simp add: render_Null_iff)
next
  assume "render props (run native events) \<noteq> Null"
  then have "isInitialized (run native events)" and d: "dimensions (run native events) \<noteq> NoKeys"
    by (simp_all add: render_Null_iff)
  then show "nativeIsInitialized native" by (simp add: isInitialized_run)
  show "dimensions (run native events) \<noteq> NoKeys" by (rule d)
next
  assume n: "\<not> nativeIsInitialized native'"
  then show all_null: "\<forall>out \<in> set (outputs native' events'). out = Null"
    by (rule outputs_run_uninitialized)
  then have "quiet (run native' events')" by (rule quiet_run)
  then show "commands (run native' events') = []" by (simp add: quiet_def)
next
  assume "\<not> nativeIsInitialized native' \<and> i < length (pending s')
        \<and> pending s' ! i = IsInitializedQ"
  then show "settle native' i s' =
              s'\<lparr>pending := take i (pending s') @ drop (Suc i) (pending s'),
                  isInitialized := False,
                  warnings := warnings s' @ [initWarning]\<rparr>"
    by (simp add: settle_IsInitializedQ thenIsInitialized_def)
qed

text \<open>
  The same at a phone whose queries are answered in the order they were issued, and at
  a module that is not initialized.
\<close>

lemma native_view_gating_example:
  "render plainBanner
     (run phoneNative [Render plainBanner, Settle 0, Settle 0, Render plainBanner, Settle 0])
     \<noteq> Null
   \<and> nativeIsInitialized phoneNative
   \<and> dimensions
       (run phoneNative [Render plainBanner, Settle 0, Settle 0, Render plainBanner, Settle 0])
     \<noteq> NoKeys
   \<and> \<not> nativeIsInitialized uninitializedNative
   \<and> 1 < length (pending (run uninitializedNative [Render plainBanner]))
   \<and> pending (run uninitializedNative [Render plainBanner]) ! 1 = IsInitializedQ
   \<and> outputs uninitializedNative [Render plainBanner, Settle 1, Render plainBanner, LoadAd]
       = [Null, Null]
   \<and> commands (run uninitializedNative
                 [Render plainBanner, Settle 1, Render plainBanner, LoadAd]) = []
   \<and> settle uninitializedNative 1 (run uninitializedNative [Render plainBanner])
       = (run uninitializedNative [Render plainBanner])
           \<lparr>pending := take 1 (pending (run uninitializedNative [Render plainBanner]))
                         @ drop (Suc 1) (pending (run uninitializedNative [Render plainBanner])),
             isInitialized := False,
             warnings := warnings (run uninitializedNative [Render plainBanner])
                           @ [initWarning]\<rparr>"
proof -
  have pre: "render plainBanner
       (run phoneNative [Render plainBanner, Settle 0, Settle 0, Render plainBanner, Settle 0])
       \<noteq> Null
     \<and> \<not> nativeIsInitialized uninitializedNative
     \<and> 1 < length (pending (run uninitializedNative [Render plainBanner]))
     \<and> pending (run uninitializedNative [Render plainBanner]) ! 1 = IsInitializedQ
     \<and> outputs uninitializedNative [Render plainBanner, Settle 1, Render plainBanner, LoadAd]
         = [Null, Null]"
    by (simp add: model_defs input_defs)
  show ?thesis
    using pre
      native_view_gating [where props = plainBanner and native = phoneNative
        and events = "[Render plainBanner, Settle 0, Settle 0, Render plainBanner, Settle 0]"
        and native' = uninitializedNative
        and events' = "[Render plainBanner, Settle 1, Render plainBanner, LoadAd]"
        and s' = "run uninitializedNative [Render plainBanner]" and i = 1]
    by blast
qed

text \<open>
  Claim C6 at the input where the code departs from it: a banner without the adaptive
  flag, with the style width 100 percent and no height, on a tablet. The initialization
  query is answered before the tablet query, the sizing runs with the empty format
  default, and the component returns the native view although the height of the
  resolved size is undefined: the render body tests that the stored record has keys, not that
  their values are defined.
\<close>

theorem C6_view_rendered_with_undefined_height:
  "render (propsOf BANNER False (styleOf (Some (Percent 100)) None) 1024)
     (run tabletNative
        [Render (propsOf BANNER False (styleOf (Some (Percent 100)) None) 1024), Settle 1,
         Render (propsOf BANNER False (styleOf (Some (Percent 100)) None) 1024), Settle 1])
   \<noteq> Null
   \<and> heightOf (dimensions (run tabletNative
        [Render (propsOf BANNER False (styleOf (Some (Percent 100)) None) 1024), Settle 1,
         Render (propsOf BANNER False (styleOf (Some (Percent 100)) None) 1024), Settle 1]))
     = None"
  by (simp add: model_defs input_defs)

section \<open>The imperative handle\<close>

text \<open>
  Claim C10: a call of \<open>loadAd\<close> while no native element has been saved returns the state
  as it is, so it dispatches no command and changes nothing. In every run from the mount
  in which each render pass so far has returned null, no element has been saved, and a
  call of \<open>loadAd\<close> leaves the state as it is.
\<close>

theorem C10_loadAd_before_view_is_noop:
  "(adViewRef s = None \<longrightarrow> loadAd s = s)
   \<and> ((\<forall>out \<in> set (outputs native events). out = Null)
        \<longrightarrow> adViewRef (run native events) = None
            \<and> step native (run native events) LoadAd = run native events)"
proof (intro conjI impI)
  assume "adViewRef s = None"
  then show "loadAd s = s" by (simp add: loadAd_def)
next
  assume "\<forall>out \<in> set (outputs native events). out = Null"
  then have q: "quiet (run native events)" by (rule quiet_run)
  then show "adViewRef (run native events) = None" by (simp add: quiet_def)
  from q show "step native (run native events) LoadAd = run native events"
    by (simp add: quiet_loadAd)
qed

text \<open>
  The theorem of C10 at the initial state and at the run of a banner that is mounted,
  initialized and still waiting for its size.
\<close>

theorem C10_loadAd_before_view_is_noop_witness:
  "adViewRef initialState = None
   \<and> loadAd initialState = initialState
   \<and> outputs phoneNative [Render plainBanner, Settle 0, Settle 0, Render plainBanner]
       = [Null, Null]
   \<and> adViewRef (run phoneNative [Render plainBanner, Settle 0, Settle 0, Render plainBanner])
       = None
   \<and> step phoneNative
        (run phoneNative [Render plainBanner, Settle 0, Settle 0, Render plainBanner]) LoadAd
       = run phoneNative [Render plainBanner, Settle 0, Settle 0, Render plainBanner]"
proof -
  have pre: "adViewRef initialState = None
     \<and> outputs phoneNative [Render plainBanner, Settle 0, Settle 0, Render plainBanner]
         = [Null, Null]"
    by (simp add: model_defs input_defs)
  then have
    "\<forall>out \<in> set (outputs phoneNative
                     [Render plainBanner, Settle 0, Settle 0, Render plainBanner]). out = Null"
    by simp
  then show ?thesis
    using pre
      C10_loadAd_before_view_is_noop [where s = initialState and native = phoneNative
        and events = "[Render plainBanner, Settle 0, Settle 0, Render plainBanner]"]
    by blast
qed

section \<open>Preload and destroy\<close>

text \<open>
  Claim C8: each of the two functions issues exactly one call to the native module,
  carrying the ad unit id, the format and the four properties of the options as they
  are (all four undefined when no options are given), and returns the outcome the
  native module gives to that call; a rejection comes back with the native module's
  reason, and no second call is made.
\<close>

theorem C8_passthrough:
  "preloadNativeUIComponentAdView native adUnitId fmt (Some options) issued
     = (native (PreloadCall adUnitId fmt (placement options) (customData options)
                  (extraParameters options) (localExtraParameters options)),
        issued @ [PreloadCall adUnitId fmt (placement options) (customData options)
                    (extraParameters options) (localExtraParameters options)])
   \<and> preloadNativeUIComponentAdView native adUnitId fmt None issued
     = (native (PreloadCall adUnitId fmt None None None None),
        issued @ [PreloadCall adUnitId fmt None None None None])
   \<and> destroyNativeUIComponentAdView native adUnitId issued
     = (native (DestroyCall adUnitId), issued @ [DestroyCall adUnitId])
   \<and> (native (PreloadCall adUnitId fmt (Option.bind opts placement)
                 (Option.bind opts customData) (Option.bind opts extraParameters)
                 (Option.bind opts localExtraParameters)) = Inl reason
        \<longrightarrow> fst (preloadNativeUIComponentAdView native adUnitId fmt opts issued) = Inl reason)
   \<and> (native (DestroyCall adUnitId) = Inl reason
        \<longrightarrow> fst (destroyNativeUIComponentAdView native adUnitId issued) = Inl reason)"
  by (simp add: preloadNativeUIComponentAdView_def destroyNativeUIComponentAdView_def Let_def)

text \<open>The theorem of C8 at a native module that rejects every call.\<close>

theorem C8_passthrough_witness:
  "rejectingNative (PreloadCall ''unit'' BANNER (Option.bind None placement)
       (Option.bind None customData) (Option.bind None extraParameters)
       (Option.bind None localExtraParameters)) = Inl ''not initialized''
   \<and> rejectingNative (DestroyCall ''unit'') = Inl ''not initialized''
   \<and> preloadNativeUIComponentAdView rejectingNative ''unit'' BANNER None []
       = (Inl ''not initialized'', [PreloadCall ''unit'' BANNER None None None None])
   \<and> fst (destroyNativeUIComponentAdView rejectingNative ''unit'' []) = Inl ''not initialized''"
proof -
  have pre: "rejectingNative (PreloadCall ''unit'' BANNER (Option.bind None placement)
       (Option.bind None customData) (Option.bind None extraParameters)
       (Option.bind None localExtraParameters)) = Inl ''not initialized''
     \<and> rejectingNative (DestroyCall ''unit'') = Inl ''not initialized''"
    by (simp add: rejectingNative_def)
  show ?thesis
    using pre
      C8_passthrough [where native = rejectingNative and adUnitId = "''unit''" and fmt = BANNER
        and opts = None and issued = "[]" and reason = "''not initialized''"]
    by simp
qed

end
